theory Spec2Isabelle
  imports Main
begin

section \<open>The CSS selector builder of src/05-objects-tasks.js\<close>

text \<open>
  The object \<^verbatim>\<open>cssSelectorBuilder\<close> and every object its methods return carry the same
  methods and the same two message texts (the spread \<^verbatim>\<open>{ ...this }\<close> copies them along),
  and up to seven data properties: \<^verbatim>\<open>elVal\<close>, \<^verbatim>\<open>idVal\<close>, \<^verbatim>\<open>classVal\<close>,
  \<^verbatim>\<open>attrVal\<close>, \<^verbatim>\<open>pseudoCl\<close>, \<^verbatim>\<open>pseudoEl\<close> and \<^verbatim>\<open>value\<close>. A property that was
  never assigned reads \<^verbatim>\<open>undefined\<close>, which is \<open>None\<close> here; the methods receive strings.
  The property \<^verbatim>\<open>value\<close> is the field \<open>valueVal\<close>, the methods \<^verbatim>\<open>id\<close> and
  \<^verbatim>\<open>class\<close> are \<open>id_sel\<close> and \<open>class_sel\<close>.
\<close>

record builder =
  elVal :: "string option"
  idVal :: "string option"
  classVal :: "string option"
  attrVal :: "string option"
  pseudoCl :: "string option"
  pseudoEl :: "string option"
  valueVal :: "string option"

definition cssSelectorBuilder :: builder where
  "cssSelectorBuilder =
     \<lparr>elVal = None, idVal = None, classVal = None, attrVal = None,
      pseudoCl = None, pseudoEl = None, valueVal = None\<rparr>"

text \<open>
  The tests \<^verbatim>\<open>if (this.elVal)\<close> and \<^verbatim>\<open>if (!obj.elVal)\<close> are JavaScript truthiness:
  \<^verbatim>\<open>undefined\<close> and the empty string are falsy, every other string is truthy.
\<close>

fun truthy :: "string option \<Rightarrow> bool" where
  "truthy None = False"
| "truthy (Some s) = (s \<noteq> [])"

text \<open>The string a property contributes where it is read after a truthiness test.\<close>

fun frag :: "string option \<Rightarrow> string" where
  "frag None = []"
| "frag (Some s) = s"

text \<open>The methods throw \<^verbatim>\<open>new Error(text)\<close> with one of the two texts of the object.\<close>

datatype error = Error string

definition countErrText :: string where
  "countErrText =
     ''Element, id and pseudo-element should not occur more then one time inside the selector''"

definition orderErrText :: string where
  "orderErrText =
     ''Selector parts should be arranged in the following order: element, id, class, attribute, pseudo-class, pseudo-element''"

definition CardinalityError :: error where
  "CardinalityError = Error countErrText"

definition OrderError :: error where
  "OrderError = Error orderErrText"

subsection \<open>The methods, on builder values\<close>

definition element :: "builder \<Rightarrow> string \<Rightarrow> error + builder" where
  "element this v =
     (if truthy (elVal this) then Inl CardinalityError
      else if truthy (idVal this) then Inl OrderError
      else let obj = this in
        Inr (if \<not> truthy (elVal obj) then obj\<lparr>elVal := Some v\<rparr>
             else obj\<lparr>elVal := Some (frag (elVal obj) @ v)\<rparr>))"

definition id_sel :: "builder \<Rightarrow> string \<Rightarrow> error + builder" where
  "id_sel this v =
     (if truthy (idVal this) then Inl CardinalityError
      else if truthy (classVal this) \<or> truthy (pseudoEl this) then Inl OrderError
      else let obj = this in
        Inr (if \<not> truthy (idVal obj) then obj\<lparr>idVal := Some (''#'' @ v)\<rparr>
             else obj\<lparr>idVal := Some (frag (idVal obj) @ ''#'' @ v)\<rparr>))"

definition class_sel :: "builder \<Rightarrow> string \<Rightarrow> error + builder" where
  "class_sel this v =
     (if truthy (attrVal this) then Inl OrderError
      else let obj = this in
        Inr (if \<not> truthy (classVal obj) then obj\<lparr>classVal := Some (''.'' @ v)\<rparr>
             else obj\<lparr>classVal := Some (frag (classVal obj) @ ''.'' @ v)\<rparr>))"

definition attr :: "builder \<Rightarrow> string \<Rightarrow> error + builder" where
  "attr this v =
     (if truthy (pseudoCl this) then Inl OrderError
      else let obj = this in
        Inr (if \<not> truthy (attrVal obj) then obj\<lparr>attrVal := Some (''['' @ v @ '']'')\<rparr>
             else obj\<lparr>attrVal := Some (frag (attrVal obj) @ ''['' @ v @ '']'')\<rparr>))"

definition pseudoClass :: "builder \<Rightarrow> string \<Rightarrow> error + builder" where
  "pseudoClass this v =
     (if truthy (pseudoEl this) then Inl OrderError
      else let obj = this in
        Inr (if \<not> truthy (pseudoCl obj) then obj\<lparr>pseudoCl := Some ('':'' @ v)\<rparr>
             else obj\<lparr>pseudoCl := Some (frag (pseudoCl obj) @ '':'' @ v)\<rparr>))"

definition pseudoElement :: "builder \<Rightarrow> string \<Rightarrow> error + builder" where
  "pseudoElement this v =
     (if truthy (pseudoEl this) then Inl CardinalityError
      else let obj = this in
        Inr (if \<not> truthy (pseudoEl obj) then obj\<lparr>pseudoEl := Some (''::'' @ v)\<rparr>
             else obj\<lparr>pseudoEl := Some (frag (pseudoEl obj) @ ''::'' @ v)\<rparr>))"

definition stringify :: "builder \<Rightarrow> string" where
  "stringify this =
     (if truthy (valueVal this) then frag (valueVal this)
      else
        (let res = [];
             res = (if truthy (elVal this) then res @ frag (elVal this) else res);
             res = (if truthy (idVal this) then res @ frag (idVal this) else res);
             res = (if truthy (classVal this) then res @ frag (classVal this) else res);
             res = (if truthy (attrVal this) then res @ frag (attrVal this) else res);
             res = (if truthy (pseudoCl this) then res @ frag (pseudoCl this) else res);
             res = (if truthy (pseudoEl this) then res @ frag (pseudoEl this) else res)
         in res))"

text \<open>
  \<^verbatim>\<open>combine\<close> is a method too: it copies its receiver and writes the property
  \<^verbatim>\<open>value\<close> of the copy. It has no \<^verbatim>\<open>throw\<close>.
\<close>

definition combine :: "builder \<Rightarrow> builder \<Rightarrow> string \<Rightarrow> builder \<Rightarrow> builder" where
  "combine this selector1 combinator selector2 =
     (let obj = this;
          v = stringify selector1 @ '' '' @ combinator @ '' '' @ stringify selector2
      in if \<not> truthy (valueVal obj) then obj\<lparr>valueVal := Some v\<rparr>
         else obj\<lparr>valueVal := Some (frag (valueVal obj) @ v)\<rparr>)"

text \<open>
  A chain of method calls \<^verbatim>\<open>b.m1(v1).m2(v2)...\<close>: each call is made on the object the
  previous one returned, and the first \<^verbatim>\<open>throw\<close> ends the chain.
\<close>

datatype call =
  Element string | Id string | Class string | Attr string
  | PseudoClass string | PseudoElement string

fun invoke :: "builder \<Rightarrow> call \<Rightarrow> error + builder" where
  "invoke b (Element v) = element b v"
| "invoke b (Id v) = id_sel b v"
| "invoke b (Class v) = class_sel b v"
| "invoke b (Attr v) = attr b v"
| "invoke b (PseudoClass v) = pseudoClass b v"
| "invoke b (PseudoElement v) = pseudoElement b v"

fun chain :: "builder \<Rightarrow> call list \<Rightarrow> error + builder" where
  "chain b [] = Inr b"
| "chain b (c # cs) = (case invoke b c of Inl e \<Rightarrow> Inl e | Inr b' \<Rightarrow> chain b' cs)"

text \<open>
  The builders a program can obtain from \<^verbatim>\<open>cssSelectorBuilder\<close> through the methods:
  the object itself, the result of a fragment method that did not throw, and the result of
  \<^verbatim>\<open>combine\<close> called on such an object with two such objects.
\<close>

inductive reachable :: "builder \<Rightarrow> bool" where
  init: "reachable cssSelectorBuilder"
| fragment: "reachable b \<Longrightarrow> invoke b c = Inr b' \<Longrightarrow> reachable b'"
| combined: "reachable b \<Longrightarrow> reachable s1 \<Longrightarrow> reachable s2 \<Longrightarrow> reachable (combine b s1 t s2)"

text \<open>Every property but \<^verbatim>\<open>elVal\<close> is written with punctuation around the argument.\<close>

definition punctuated :: "builder \<Rightarrow> bool" where
  "punctuated b \<longleftrightarrow>
     idVal b \<noteq> Some [] \<and> classVal b \<noteq> Some [] \<and> attrVal b \<noteq> Some [] \<and>
     pseudoCl b \<noteq> Some [] \<and> pseudoEl b \<noteq> Some [] \<and> valueVal b \<noteq> Some []"

subsection \<open>The methods, on an object store\<close>

text \<open>
  JavaScript objects are references. To state that a method leaves the object it is called
  on as it was, the same methods are written over a store: \<open>objs\<close> gives the properties of
  the object at each reference and \<open>nxt\<close> is the next reference to hand out. The spread
  \<^verbatim>\<open>{ ...this }\<close> allocates an object with the properties of \<^verbatim>\<open>this\<close>, and
  \<^verbatim>\<open>obj.p = e\<close> writes a property of the object at \<open>obj\<close>.
\<close>

record store =
  objs :: "nat \<Rightarrow> builder"
  nxt :: nat

definition spread :: "store \<Rightarrow> nat \<Rightarrow> nat \<times> store" where
  "spread h this = (nxt h, h\<lparr>objs := (objs h)(nxt h := objs h this), nxt := Suc (nxt h)\<rparr>)"

definition assign :: "store \<Rightarrow> nat \<Rightarrow> (builder \<Rightarrow> builder) \<Rightarrow> store" where
  "assign h obj f = h\<lparr>objs := (objs h)(obj := f (objs h obj))\<rparr>"

definition element_st :: "store \<Rightarrow> nat \<Rightarrow> string \<Rightarrow> error + nat \<times> store" where
  "element_st h this v =
     (if truthy (elVal (objs h this)) then Inl CardinalityError
      else if truthy (idVal (objs h this)) then Inl OrderError
      else case spread h this of (obj, h1) \<Rightarrow>
        Inr (obj,
          if \<not> truthy (elVal (objs h1 obj)) then assign h1 obj (\<lambda>x. x\<lparr>elVal := Some v\<rparr>)
          else assign h1 obj (\<lambda>x. x\<lparr>elVal := Some (frag (elVal x) @ v)\<rparr>)))"

definition id_st :: "store \<Rightarrow> nat \<Rightarrow> string \<Rightarrow> error + nat \<times> store" where
  "id_st h this v =
     (if truthy (idVal (objs h this)) then Inl CardinalityError
      else if truthy (classVal (objs h this)) \<or> truthy (pseudoEl (objs h this))
        then Inl OrderError
      else case spread h this of (obj, h1) \<Rightarrow>
        Inr (obj,
          if \<not> truthy (idVal (objs h1 obj)) then assign h1 obj (\<lambda>x. x\<lparr>idVal := Some (''#'' @ v)\<rparr>)
          else assign h1 obj (\<lambda>x. x\<lparr>idVal := Some (frag (idVal x) @ ''#'' @ v)\<rparr>)))"

definition class_st :: "store \<Rightarrow> nat \<Rightarrow> string \<Rightarrow> error + nat \<times> store" where
  "class_st h this v =
     (if truthy (attrVal (objs h this)) then Inl OrderError
      else case spread h this of (obj, h1) \<Rightarrow>
        Inr (obj,
          if \<not> truthy (classVal (objs h1 obj))
          then assign h1 obj (\<lambda>x. x\<lparr>classVal := Some (''.'' @ v)\<rparr>)
          else assign h1 obj (\<lambda>x. x\<lparr>classVal := Some (frag (classVal x) @ ''.'' @ v)\<rparr>)))"

definition attr_st :: "store \<Rightarrow> nat \<Rightarrow> string \<Rightarrow> error + nat \<times> store" where
  "attr_st h this v =
     (if truthy (pseudoCl (objs h this)) then Inl OrderError
      else case spread h this of (obj, h1) \<Rightarrow>
        Inr (obj,
          if \<not> truthy (attrVal (objs h1 obj))
          then assign h1 obj (\<lambda>x. x\<lparr>attrVal := Some (''['' @ v @ '']'')\<rparr>)
          else assign h1 obj (\<lambda>x. x\<lparr>attrVal := Some (frag (attrVal x) @ ''['' @ v @ '']'')\<rparr>)))"

definition pseudoClass_st :: "store \<Rightarrow> nat \<Rightarrow> string \<Rightarrow> error + nat \<times> store" where
  "pseudoClass_st h this v =
     (if truthy (pseudoEl (objs h this)) then Inl OrderError
      else case spread h this of (obj, h1) \<Rightarrow>
        Inr (obj,
          if \<not> truthy (pseudoCl (objs h1 obj))
          then assign h1 obj (\<lambda>x. x\<lparr>pseudoCl := Some ('':'' @ v)\<rparr>)
          else assign h1 obj (\<lambda>x. x\<lparr>pseudoCl := Some (frag (pseudoCl x) @ '':'' @ v)\<rparr>)))"

definition pseudoElement_st :: "store \<Rightarrow> nat \<Rightarrow> string \<Rightarrow> error + nat \<times> store" where
  "pseudoElement_st h this v =
     (if truthy (pseudoEl (objs h this)) then Inl CardinalityError
      else case spread h this of (obj, h1) \<Rightarrow>
        Inr (obj,
          if \<not> truthy (pseudoEl (objs h1 obj))
          then assign h1 obj (\<lambda>x. x\<lparr>pseudoEl := Some (''::'' @ v)\<rparr>)
          else assign h1 obj (\<lambda>x. x\<lparr>pseudoEl := Some (frag (pseudoEl x) @ ''::'' @ v)\<rparr>)))"

text \<open>
  \<^verbatim>\<open>stringify\<close> reads properties of \<^verbatim>\<open>this\<close> and writes only its local \<^verbatim>\<open>res\<close>; the
  store it leaves is returned with the string.
\<close>

definition stringify_st :: "store \<Rightarrow> nat \<Rightarrow> string \<times> store" where
  "stringify_st h this = (stringify (objs h this), h)"

definition combine_st :: "store \<Rightarrow> nat \<Rightarrow> nat \<Rightarrow> string \<Rightarrow> nat \<Rightarrow> error + nat \<times> store" where
  "combine_st h this selector1 combinator selector2 =
     (case spread h this of (obj, h1) \<Rightarrow>
      case stringify_st h1 selector1 of (str1, h2) \<Rightarrow>
      case stringify_st h2 selector2 of (str2, h3) \<Rightarrow>
        let v = str1 @ '' '' @ combinator @ '' '' @ str2 in
        Inr (obj,
          if \<not> truthy (valueVal (objs h3 obj)) then assign h3 obj (\<lambda>x. x\<lparr>valueVal := Some v\<rparr>)
          else assign h3 obj (\<lambda>x. x\<lparr>valueVal := Some (frag (valueVal x) @ v)\<rparr>)))"

datatype store_call = Fragment call | Combine nat string nat

fun invoke_st :: "store \<Rightarrow> nat \<Rightarrow> store_call \<Rightarrow> error + nat \<times> store" where
  "invoke_st h this (Fragment (Element v)) = element_st h this v"
| "invoke_st h this (Fragment (Id v)) = id_st h this v"
| "invoke_st h this (Fragment (Class v)) = class_st h this v"
| "invoke_st h this (Fragment (Attr v)) = attr_st h this v"
| "invoke_st h this (Fragment (PseudoClass v)) = pseudoClass_st h this v"
| "invoke_st h this (Fragment (PseudoElement v)) = pseudoElement_st h this v"
| "invoke_st h this (Combine s1 t s2) = combine_st h this s1 t s2"

section \<open>Basic facts\<close>

lemmas method_defs =
  element_def id_sel_def class_sel_def attr_def pseudoClass_def pseudoElement_def

lemmas store_defs =
  element_st_def id_st_def class_st_def attr_st_def pseudoClass_st_def pseudoElement_st_def
  combine_st_def stringify_st_def spread_def assign_def

lemma errors_differ: "CardinalityError \<noteq> OrderError"
  by (simp add: CardinalityError_def OrderError_def countErrText_def orderErrText_def)

lemma truthy_frag: "(if truthy x then res @ frag x else res) = res @ frag x"
  by (cases x) auto

lemma truthy_iff: "x \<noteq> Some [] \<Longrightarrow> truthy x \<longleftrightarrow> x \<noteq> None"
  by (cases x) auto

lemma stringify_fragments:
  "\<not> truthy (valueVal b) \<Longrightarrow>
   stringify b = frag (elVal b) @ frag (idVal b) @ frag (classVal b) @ frag (attrVal b)
                 @ frag (pseudoCl b) @ frag (pseudoEl b)"
  by (simp add: stringify_def truthy_frag)

lemma stringify_truthy_value: "truthy (valueVal b) \<Longrightarrow> stringify b = frag (valueVal b)"
  by (simp add: stringify_def)

text \<open>When each method throws, and what: the guards of the six methods, read off.\<close>

lemma invoke_throws:
  "element b v = Inl e \<longleftrightarrow>
     (truthy (elVal b) \<and> e = CardinalityError) \<or>
     (\<not> truthy (elVal b) \<and> truthy (idVal b) \<and> e = OrderError)"
  "id_sel b v = Inl e \<longleftrightarrow>
     (truthy (idVal b) \<and> e = CardinalityError) \<or>
     (\<not> truthy (idVal b) \<and> (truthy (classVal b) \<or> truthy (pseudoEl b)) \<and> e = OrderError)"
  "class_sel b v = Inl e \<longleftrightarrow> truthy (attrVal b) \<and> e = OrderError"
  "attr b v = Inl e \<longleftrightarrow> truthy (pseudoCl b) \<and> e = OrderError"
  "pseudoClass b v = Inl e \<longleftrightarrow> truthy (pseudoEl b) \<and> e = OrderError"
  "pseudoElement b v = Inl e \<longleftrightarrow> truthy (pseudoEl b) \<and> e = CardinalityError"
  by (auto simp: method_defs Let_def)

subsection \<open>What holds of every builder a program can obtain\<close>

lemma invoke_punctuated: "punctuated b \<Longrightarrow> invoke b c = Inr b' \<Longrightarrow> punctuated b'"
  by (cases c) (auto simp: punctuated_def method_defs split: if_splits)

lemma combine_punctuated: "punctuated b \<Longrightarrow> punctuated (combine b s1 t s2)"
  by (auto simp: punctuated_def combine_def Let_def)

lemma reachable_punctuated: "reachable b \<Longrightarrow> punctuated b"
proof (induction rule: reachable.induct)
  case init
  show ?case by (simp add: punctuated_def cssSelectorBuilder_def)
next
  case (fragment b c b')
  then show ?case by (blast intro: invoke_punctuated)
next
  case (combined b s1 s2 t)
  then show ?case by (simp add: combine_punctuated)
qed

lemma chain_reachable: "reachable b \<Longrightarrow> chain b cs = Inr b' \<Longrightarrow> reachable b'"
proof (induction cs arbitrary: b)
  case Nil
  then show ?case by simp
next
  case (Cons c cs)
  then show ?case
    by (auto split: sum.splits intro: reachable.fragment)
qed

subsection \<open>The store methods against the methods on values\<close>

lemma invoke_st_frame:
  "invoke_st h this c = Inr (obj, h') \<Longrightarrow>
   obj = nxt h \<and> nxt h' = Suc (nxt h) \<and> (\<forall>r. r \<noteq> nxt h \<longrightarrow> objs h' r = objs h r)"
proof (cases c)
  case (Fragment f)
  assume "invoke_st h this c = Inr (obj, h')"
  with Fragment show ?thesis
    by (cases f) (auto simp: store_defs split: if_splits)
next
  case (Combine s1 t s2)
  assume "invoke_st h this c = Inr (obj, h')"
  with Combine show ?thesis
    by (auto simp: store_defs Let_def split: if_splits)
qed

lemma invoke_st_invoke:
  "invoke_st h this (Fragment f) =
     map_sum id (\<lambda>b. (nxt h, h\<lparr>objs := (objs h)(nxt h := b), nxt := Suc (nxt h)\<rparr>))
       (invoke (objs h this) f)"
  by (cases f) (simp_all add: store_defs method_defs Let_def)

lemma combine_st_combine:
  "combine_st h this s1 t s2 =
     Inr (nxt h, h\<lparr>objs := (objs h)(nxt h := combine (objs h this)
            (if s1 = nxt h then objs h this else objs h s1) t
            (if s2 = nxt h then objs h this else objs h s2)), nxt := Suc (nxt h)\<rparr>)"
  by (simp add: store_defs combine_def Let_def)

section \<open>Rendering\<close>

text \<open>
  C1. On a builder whose property \<^verbatim>\<open>value\<close> is not set, \<^verbatim>\<open>stringify()\<close> returns the
  fragments that are present, concatenated in the order element, id, class, attribute,
  pseudo-class, pseudo-element with nothing between them (an absent fragment contributes
  the empty string). The chain \<^verbatim>\<open>id('main').class('container').class('editable')\<close>
  renders as \<^verbatim>\<open>#main.container.editable\<close>, and
  \<^verbatim>\<open>element('a').attr('href$=".png"').pseudoClass('focus')\<close> as
  \<^verbatim>\<open>a[href$=".png"]:focus\<close>.
\<close>

theorem stringify_concatenates_fragments:
  \<open>(valueVal b = None \<longrightarrow>
      stringify b = frag (elVal b) @ frag (idVal b) @ frag (classVal b) @ frag (attrVal b)
                    @ frag (pseudoCl b) @ frag (pseudoEl b))
   \<and> map_sum id stringify
       (chain cssSelectorBuilder [Id ''main'', Class ''container'', Class ''editable''])
     = Inr ''#main.container.editable''
   \<and> map_sum id stringify
       (chain cssSelectorBuilder [Element ''a'', Attr ''href$=".png"'', PseudoClass ''focus''])
     = Inr ''a[href$=".png"]:focus''\<close>
proof (intro conjI impI)
  assume "valueVal b = None"
  then show "stringify b = frag (elVal b) @ frag (idVal b) @ frag (classVal b)
                 @ frag (attrVal b) @ frag (pseudoCl b) @ frag (pseudoEl b)"
    by (simp add: stringify_fragments)
next
  show "map_sum id stringify
       (chain cssSelectorBuilder [Id ''main'', Class ''container'', Class ''editable''])
     = Inr ''#main.container.editable''"
    by (simp add: method_defs stringify_def cssSelectorBuilder_def)
next
  show \<open>map_sum id stringify
       (chain cssSelectorBuilder [Element ''a'', Attr ''href$=".png"'', PseudoClass ''focus''])
     = Inr ''a[href$=".png"]:focus''\<close>
    by (simp add: method_defs stringify_def cssSelectorBuilder_def)
qed

theorem stringify_concatenates_fragments_witness:
  "valueVal \<lparr>elVal = Some ''div'', idVal = Some ''#main'', classVal = Some ''.a.b'',
       attrVal = None, pseudoCl = Some '':hover'', pseudoEl = Some ''::after'', valueVal = None\<rparr> = None
   \<and> stringify \<lparr>elVal = Some ''div'', idVal = Some ''#main'', classVal = Some ''.a.b'',
       attrVal = None, pseudoCl = Some '':hover'', pseudoEl = Some ''::after'', valueVal = None\<rparr>
     = ''div#main.a.b:hover::after''"
  using stringify_concatenates_fragments [of "\<lparr>elVal = Some ''div'', idVal = Some ''#main'', classVal = Some ''.a.b'',
       attrVal = None, pseudoCl = Some '':hover'', pseudoEl = Some ''::after'', valueVal = None\<rparr>"]
  by simp

text \<open>
  C7. On every builder a program can obtain on which \<^verbatim>\<open>value\<close> is set,
  \<^verbatim>\<open>stringify()\<close> returns that string as it is, whatever fragments the builder also
  carries.
\<close>

theorem stringify_returns_value:
  "reachable b \<Longrightarrow> valueVal b = Some v \<Longrightarrow> stringify b = v"
  using reachable_punctuated [of b]
  by (auto simp: punctuated_def stringify_def)

theorem stringify_returns_value_witness:
  "reachable (cssSelectorBuilder\<lparr>elVal := Some ''a'', valueVal := Some ''a > a''\<rparr>)
   \<and> elVal (cssSelectorBuilder\<lparr>elVal := Some ''a'', valueVal := Some ''a > a''\<rparr>) = Some ''a''
   \<and> stringify (cssSelectorBuilder\<lparr>elVal := Some ''a'', valueVal := Some ''a > a''\<rparr>) = ''a > a''"
proof -
  let ?a = "cssSelectorBuilder\<lparr>elVal := Some ''a''\<rparr>"
  let ?b = "cssSelectorBuilder\<lparr>elVal := Some ''a'', valueVal := Some ''a > a''\<rparr>"
  have "invoke cssSelectorBuilder (Element ''a'') = Inr ?a"
    by (simp add: element_def cssSelectorBuilder_def)
  then have a: "reachable ?a"
    by (rule reachable.fragment [OF reachable.init])
  have "combine ?a ?a ''>'' ?a = ?b"
    by (simp add: combine_def stringify_def cssSelectorBuilder_def)
  with reachable.combined [OF a a a, of "''>''"] have b: "reachable ?b"
    by simp
  have "valueVal ?b = Some ''a > a''"
    by simp
  from stringify_returns_value [OF b this] b show ?thesis
    by simp
qed

text \<open>
  C8. \<^verbatim>\<open>stringify()\<close> is a read: it leaves the store as it found it, and a second call
  on the same object returns the same string as the first.
\<close>

theorem stringify_st_idempotent:
  "snd (stringify_st h this) = h
   \<and> fst (stringify_st (snd (stringify_st h this)) this) = fst (stringify_st h this)"
  by (simp add: stringify_st_def)

section \<open>Combination\<close>

text \<open>
  C5. Called on a receiver without a truthy \<^verbatim>\<open>value\<close> (the entry point
  \<^verbatim>\<open>cssSelectorBuilder\<close> is one), \<^verbatim>\<open>combine(A, t, B)\<close> gives a builder that renders as
  \<^verbatim>\<open>stringify(A) + " " + t + " " + stringify(B)\<close>, for any two builders and any token:
  \<open>combine\<close> has no error result and inspects neither the operands nor the token.
\<close>

theorem combine_renders_both_sides:
  "\<not> truthy (valueVal this) \<Longrightarrow>
   stringify (combine this A t B) = stringify A @ '' '' @ t @ '' '' @ stringify B"
  by (simp add: combine_def Let_def stringify_truthy_value)

theorem combine_renders_both_sides_witness:
  "\<not> truthy (valueVal cssSelectorBuilder)
   \<and> stringify (combine cssSelectorBuilder
        (cssSelectorBuilder\<lparr>elVal := Some ''div'', idVal := Some ''#main''\<rparr>) ''+''
        (cssSelectorBuilder\<lparr>elVal := Some ''table'', idVal := Some ''#data''\<rparr>))
     = ''div#main + table#data''
   \<and> stringify (combine cssSelectorBuilder
        (cssSelectorBuilder\<lparr>elVal := Some ''div'', idVal := Some ''#main''\<rparr>) ''&&''
        (cssSelectorBuilder\<lparr>elVal := Some ''table'', idVal := Some ''#data''\<rparr>))
     = ''div#main && table#data''"
  using
    combine_renders_both_sides [of cssSelectorBuilder
      "cssSelectorBuilder\<lparr>elVal := Some ''div'', idVal := Some ''#main''\<rparr>" "''+''"
      "cssSelectorBuilder\<lparr>elVal := Some ''table'', idVal := Some ''#data''\<rparr>"]
    combine_renders_both_sides [of cssSelectorBuilder
      "cssSelectorBuilder\<lparr>elVal := Some ''div'', idVal := Some ''#main''\<rparr>" "''&&''"
      "cssSelectorBuilder\<lparr>elVal := Some ''table'', idVal := Some ''#data''\<rparr>"]
  by (simp add: cssSelectorBuilder_def stringify_def)

text \<open>
  C9. \<^verbatim>\<open>combine\<close> called on a builder whose \<^verbatim>\<open>value\<close> is already set keeps the stored
  string: the new string \<^verbatim>\<open>stringify(C) + " " + t2 + " " + stringify(D)\<close> is appended to
  it with nothing in between, and \<^verbatim>\<open>stringify()\<close> returns the two together.
\<close>

theorem combine_appends_to_value:
  "valueVal this = Some v \<Longrightarrow>
   valueVal (combine this C t2 D) = Some (v @ stringify C @ '' '' @ t2 @ '' '' @ stringify D)
   \<and> stringify (combine this C t2 D) = v @ stringify C @ '' '' @ t2 @ '' '' @ stringify D"
  by (cases "v = []") (simp_all add: combine_def Let_def stringify_truthy_value)

theorem combine_appends_to_value_witness:
  "combine cssSelectorBuilder
      (cssSelectorBuilder\<lparr>elVal := Some ''div''\<rparr>) ''+'' (cssSelectorBuilder\<lparr>elVal := Some ''p''\<rparr>)
     = cssSelectorBuilder\<lparr>valueVal := Some ''div + p''\<rparr>
   \<and> valueVal (cssSelectorBuilder\<lparr>valueVal := Some ''div + p''\<rparr>) = Some ''div + p''
   \<and> stringify (combine (cssSelectorBuilder\<lparr>valueVal := Some ''div + p''\<rparr>)
        (cssSelectorBuilder\<lparr>elVal := Some ''a''\<rparr>) ''~'' (cssSelectorBuilder\<lparr>idVal := Some ''#x''\<rparr>))
     = ''div + pa ~ #x''"
  using combine_appends_to_value [of "cssSelectorBuilder\<lparr>valueVal := Some ''div + p''\<rparr>"
      "''div + p''" "cssSelectorBuilder\<lparr>elVal := Some ''a''\<rparr>" "''~''"
      "cssSelectorBuilder\<lparr>idVal := Some ''#x''\<rparr>"]
  by (simp add: cssSelectorBuilder_def combine_def stringify_def)

section \<open>Order and cardinality\<close>

text \<open>
  C2. The claim is that a write to a category after any later category was written fails
  with \<open>OrderError\<close>. \<^verbatim>\<open>element\<close> tests only \<^verbatim>\<open>idVal\<close> and \<^verbatim>\<open>id\<close> only
  \<^verbatim>\<open>classVal\<close> and \<^verbatim>\<open>pseudoEl\<close>: \<^verbatim>\<open>class('a').element('div')\<close> and
  \<^verbatim>\<open>attr('href').id('x')\<close> both return a builder.
\<close>

theorem write_after_later_category_accepted:
  "chain cssSelectorBuilder [Class ''a'', Element ''div'']
     = Inr \<lparr>elVal = Some ''div'', idVal = None, classVal = Some ''.a'', attrVal = None,
            pseudoCl = None, pseudoEl = None, valueVal = None\<rparr>
   \<and> chain cssSelectorBuilder [Attr ''href'', Id ''x'']
     = Inr \<lparr>elVal = None, idVal = Some ''#x'', classVal = None, attrVal = Some ''[href]'',
            pseudoCl = None, pseudoEl = None, valueVal = None\<rparr>"
  by (simp add: method_defs cssSelectorBuilder_def)

text \<open>
  C3. The claim is that a second write to element, id or pseudo-element fails with
  \<open>CardinalityError\<close>. The test \<^verbatim>\<open>if (this.elVal)\<close> takes the empty string for an
  absent property: after \<^verbatim>\<open>element('')\<close> the property \<^verbatim>\<open>elVal\<close> is set, and
  \<^verbatim>\<open>element('div')\<close> on the result returns a builder.
\<close>

theorem element_twice_accepted:
  "chain cssSelectorBuilder [Element '''']
     = Inr \<lparr>elVal = Some '''', idVal = None, classVal = None, attrVal = None,
            pseudoCl = None, pseudoEl = None, valueVal = None\<rparr>
   \<and> chain cssSelectorBuilder [Element '''', Element ''div'']
     = Inr \<lparr>elVal = Some ''div'', idVal = None, classVal = None, attrVal = None,
            pseudoCl = None, pseudoEl = None, valueVal = None\<rparr>"
  by (simp add: method_defs cssSelectorBuilder_def)

text \<open>
  Every other second write does fail with \<open>CardinalityError\<close>: the id and the
  pseudo-element fragment are never empty, and a non-empty element fragment is truthy.
\<close>

lemma second_write_throws:
  assumes "reachable b"
  shows "elVal b \<noteq> None \<Longrightarrow> elVal b \<noteq> Some [] \<Longrightarrow> element b v = Inl CardinalityError"
    and "idVal b \<noteq> None \<Longrightarrow> id_sel b v = Inl CardinalityError"
    and "pseudoEl b \<noteq> None \<Longrightarrow> pseudoElement b v = Inl CardinalityError"
  using reachable_punctuated [OF assms]
  by (simp_all add: punctuated_def method_defs truthy_iff)

text \<open>
  C4, as stated, fails: \<^verbatim>\<open>id\<close> tests \<^verbatim>\<open>idVal\<close> before \<^verbatim>\<open>classVal\<close>, so on a builder
  that has an id and a class, \<^verbatim>\<open>id('c')\<close> throws the cardinality text, not the order text.
\<close>

theorem id_after_id_and_class_cardinality:
  "chain cssSelectorBuilder [Id ''a'', Class ''b'']
     = Inr \<lparr>elVal = None, idVal = Some ''#a'', classVal = Some ''.b'', attrVal = None,
       pseudoCl = None, pseudoEl = None, valueVal = None\<rparr>
   \<and> id_sel \<lparr>elVal = None, idVal = Some ''#a'', classVal = Some ''.b'', attrVal = None,
       pseudoCl = None, pseudoEl = None, valueVal = None\<rparr> ''c'' = Inl CardinalityError
   \<and> id_sel \<lparr>elVal = None, idVal = Some ''#a'', classVal = Some ''.b'', attrVal = None,
       pseudoCl = None, pseudoEl = None, valueVal = None\<rparr> ''c'' \<noteq> Inl OrderError"
  by (simp add: method_defs cssSelectorBuilder_def errors_differ)

text \<open>
  C4, amended. On every builder a program can obtain: \<^verbatim>\<open>id\<close> after a class fragment
  was written fails, with \<open>OrderError\<close> when no id fragment is set and with
  \<open>CardinalityError\<close> when one is; \<^verbatim>\<open>class\<close> after an attribute fragment,
  \<^verbatim>\<open>attr\<close> after a pseudo-class fragment and \<^verbatim>\<open>pseudoClass\<close> after the pseudo-element
  fragment fail with \<open>OrderError\<close>.
\<close>

theorem write_after_next_category_throws:
  assumes "reachable b"
  shows "(classVal b \<noteq> None \<longrightarrow>
            id_sel b v = Inl (if idVal b = None then OrderError else CardinalityError))
       \<and> (attrVal b \<noteq> None \<longrightarrow> class_sel b v = Inl OrderError)
       \<and> (pseudoCl b \<noteq> None \<longrightarrow> attr b v = Inl OrderError)
       \<and> (pseudoEl b \<noteq> None \<longrightarrow> pseudoClass b v = Inl OrderError)"
  using reachable_punctuated [OF assms]
  by (simp add: punctuated_def method_defs truthy_iff)

theorem write_after_next_category_throws_witness:
  "reachable \<lparr>elVal = None, idVal = Some ''#a'', classVal = Some ''.b'', attrVal = Some ''[c]'',
       pseudoCl = Some '':d'', pseudoEl = Some ''::e'', valueVal = None\<rparr>
   \<and> id_sel \<lparr>elVal = None, idVal = Some ''#a'', classVal = Some ''.b'', attrVal = Some ''[c]'',
       pseudoCl = Some '':d'', pseudoEl = Some ''::e'', valueVal = None\<rparr> ''x'' = Inl CardinalityError
   \<and> class_sel \<lparr>elVal = None, idVal = Some ''#a'', classVal = Some ''.b'', attrVal = Some ''[c]'',
       pseudoCl = Some '':d'', pseudoEl = Some ''::e'', valueVal = None\<rparr> ''x'' = Inl OrderError
   \<and> attr \<lparr>elVal = None, idVal = Some ''#a'', classVal = Some ''.b'', attrVal = Some ''[c]'',
       pseudoCl = Some '':d'', pseudoEl = Some ''::e'', valueVal = None\<rparr> ''x'' = Inl OrderError
   \<and> pseudoClass \<lparr>elVal = None, idVal = Some ''#a'', classVal = Some ''.b'', attrVal = Some ''[c]'',
       pseudoCl = Some '':d'', pseudoEl = Some ''::e'', valueVal = None\<rparr> ''x'' = Inl OrderError
   \<and> reachable (cssSelectorBuilder\<lparr>classVal := Some ''.b''\<rparr>)
   \<and> id_sel (cssSelectorBuilder\<lparr>classVal := Some ''.b''\<rparr>) ''x'' = Inl OrderError"
proof -
  let ?b = "\<lparr>elVal = None, idVal = Some ''#a'', classVal = Some ''.b'', attrVal = Some ''[c]'',
       pseudoCl = Some '':d'', pseudoEl = Some ''::e'', valueVal = None\<rparr>"
  let ?c = "cssSelectorBuilder\<lparr>classVal := Some ''.b''\<rparr>"
  have "chain cssSelectorBuilder
          [Id ''a'', Class ''b'', Attr ''c'', PseudoClass ''d'', PseudoElement ''e''] = Inr ?b"
    by (simp add: method_defs cssSelectorBuilder_def)
  then have b: "reachable ?b"
    by (rule chain_reachable [OF reachable.init])
  have "chain cssSelectorBuilder [Class ''b''] = Inr ?c"
    by (simp add: method_defs cssSelectorBuilder_def)
  then have c: "reachable ?c"
    by (rule chain_reachable [OF reachable.init])
  from write_after_next_category_throws [OF b, of "''x''"]
    write_after_next_category_throws [OF c, of "''x''"] b c
  show ?thesis
    by (simp add: cssSelectorBuilder_def)
qed

section \<open>No aliasing\<close>

text \<open>
  C6. A fragment method or \<^verbatim>\<open>combine\<close> that returns, returns a reference that no
  object had before the call, and every object that existed before the call (the receiver
  and the operands of \<^verbatim>\<open>combine\<close> among them) has the properties it had and renders as
  it did: a builder can be the common prefix of several derived selectors.
\<close>

theorem invoke_st_leaves_objects:
  "invoke_st h this c = Inr (obj, h') \<Longrightarrow> r < nxt h \<Longrightarrow>
   obj \<noteq> r \<and> objs h' r = objs h r \<and> fst (stringify_st h' r) = fst (stringify_st h r)"
  using invoke_st_frame [of h this c obj h']
  by (simp add: stringify_st_def)

theorem invoke_st_leaves_objects_witness:
  "invoke_st \<lparr>objs = (\<lambda>_. cssSelectorBuilder), nxt = 1\<rparr> 0 (Fragment (Id ''main''))
     = Inr (1, \<lparr>objs = (\<lambda>_. cssSelectorBuilder)(1 := cssSelectorBuilder\<lparr>idVal := Some ''#main''\<rparr>),
         nxt = 2\<rparr>)
   \<and> (0::nat) < nxt \<lparr>objs = (\<lambda>_. cssSelectorBuilder), nxt = 1\<rparr>
   \<and> fst (stringify_st \<lparr>objs = (\<lambda>_. cssSelectorBuilder)(1 := cssSelectorBuilder\<lparr>idVal := Some ''#main''\<rparr>),
         nxt = 2\<rparr> 0)
     = fst (stringify_st \<lparr>objs = (\<lambda>_. cssSelectorBuilder), nxt = 1\<rparr> 0)"
proof -
  have run: "invoke_st \<lparr>objs = (\<lambda>_. cssSelectorBuilder), nxt = 1\<rparr> 0 (Fragment (Id ''main''))
     = Inr (1, \<lparr>objs = (\<lambda>_. cssSelectorBuilder)(1 := cssSelectorBuilder\<lparr>idVal := Some ''#main''\<rparr>),
         nxt = 2\<rparr>)"
    by (simp add: store_defs cssSelectorBuilder_def)
  have old: "(0::nat) < nxt \<lparr>objs = (\<lambda>_. cssSelectorBuilder), nxt = 1\<rparr>"
    by simp
  from invoke_st_leaves_objects [OF run old] run old show ?thesis
    by simp
qed

end
